theory Spec2Isabelle
  imports Complex_Main "HOL-Library.Word" "HOL-Library.Multiset"
begin

section \<open>Partner registry (partners/manager.go)\<close>

text \<open>
  Go strings are byte sequences; they are modelled as \<open>string\<close> (a list of 8-bit
  characters). Go's \<open>int\<close> fields are only stored and compared for equality, never
  computed with, so they are modelled as \<open>int\<close>.
\<close>

record SSPInventory =
  ssp_Name :: string
  ssp_ID :: int
  ssp_InventoryName :: string
  ssp_Status :: string
  ssp_InventoryCode :: string
  ssp_TenantIdentifier :: string
  ssp_SSPIdentifier :: string
  ssp_TenantID :: int
  ssp_SSPID :: int
  ssp_SSPInventoryID :: int
  ssp_PrometheusID :: string
  ssp_PrometheusIdentifier :: string
  ssp_AdFormats :: "string list"

record DSPInventory =
  dsp_Name :: string
  dsp_DSPIdentifier :: string
  dsp_EndpointName :: string
  dsp_EndpointURL :: string
  dsp_QPS :: int
  dsp_Tmax :: int
  dsp_ID :: int
  dsp_InventoryCode :: string
  dsp_Status :: string
  dsp_MinBidFloor :: string
  dsp_MaxBidFloor :: string
  dsp_AdFormats :: "string list"
  dsp_Source :: "string list"
  dsp_Country :: "string list"
  dsp_CountryBlackList :: "string list"
  dsp_IABCategories :: "string list"
  dsp_BundleIDs :: "string list"
  dsp_BundleIDsBlackList :: "string list"
  dsp_SSPs :: "string list"
  dsp_SSPsBlackList :: "string list"
  dsp_Publishers :: "string list"
  dsp_PublishersBlackList :: "string list"
  dsp_TenantIdentifier :: string
  dsp_TenantID :: int
  dsp_DSPID :: int
  dsp_DSPInventoryID :: int
  dsp_PrometheusID :: string
  dsp_PrometheusIdentifier :: string

record PartnersConfig =
  SSPInventories :: "SSPInventory list"
  DSPInventories :: "DSPInventory list"
  AdServing :: bool
  TS :: string

text \<open>
  \<open>Manager\<close> holds one atomic pointer to the current snapshot; the pointer is nil
  (\<open>None\<close>) until the first successful \<open>Load\<close>.
\<close>

record Manager =
  config :: "PartnersConfig option"

definition NewManager :: Manager where
  "NewManager = \<lparr>config = None\<rparr>"

datatype load_error =
    ReadFailed string
  | UnmarshalFailed string

text \<open>
  \<open>Load\<close>: \<open>os.ReadFile\<close> and \<open>json.Unmarshal\<close> belong to the Go runtime; their
  outcomes are parameters (\<open>Inl\<close> carries the runtime's error text). The result is the
  returned error (\<open>None\<close> for nil) and the manager afterwards.
\<close>

definition Load ::
  "(string \<Rightarrow> string + string) \<Rightarrow> (string \<Rightarrow> string + PartnersConfig) \<Rightarrow>
   string \<Rightarrow> Manager \<Rightarrow> load_error option \<times> Manager" where
  "Load readFile unmarshal path m =
     (case readFile path of
        Inl err \<Rightarrow> (Some (ReadFailed err), m)
      | Inr data \<Rightarrow>
          (case unmarshal data of
             Inl err \<Rightarrow> (Some (UnmarshalFailed err), m)
           | Inr cfg \<Rightarrow> (None, m\<lparr>config := Some cfg\<rparr>)))"

definition GetConfig :: "Manager \<Rightarrow> PartnersConfig option" where
  "GetConfig m = config m"

text \<open>The scan of \<open>GetSSPByInventoryCode\<close>: the first record whose code is equal.\<close>

fun ssp_scan :: "SSPInventory list \<Rightarrow> string \<Rightarrow> SSPInventory option" where
  "ssp_scan [] code = None"
| "ssp_scan (s # ss) code =
     (if ssp_InventoryCode s = code then Some s else ssp_scan ss code)"

definition GetSSPByInventoryCode :: "Manager \<Rightarrow> string \<Rightarrow> SSPInventory option" where
  "GetSSPByInventoryCode m code =
     (case GetConfig m of
        None \<Rightarrow> None
      | Some cfg \<Rightarrow> ssp_scan (SSPInventories cfg) code)"

text \<open>The loop of \<open>GetDSPsByTenant\<close>, appending to the slice \<open>dsps\<close>.\<close>

fun dsp_scan :: "DSPInventory list \<Rightarrow> int \<Rightarrow> DSPInventory list \<Rightarrow> DSPInventory list" where
  "dsp_scan [] tenantID dsps = dsps"
| "dsp_scan (d # ds) tenantID dsps =
     (if dsp_TenantID d = tenantID \<and> dsp_Status d = ''Active''
      then dsp_scan ds tenantID (dsps @ [d])
      else dsp_scan ds tenantID dsps)"

definition GetDSPsByTenant :: "Manager \<Rightarrow> int \<Rightarrow> DSPInventory list" where
  "GetDSPsByTenant m tenantID =
     (case GetConfig m of
        None \<Rightarrow> []
      | Some cfg \<Rightarrow> dsp_scan (DSPInventories cfg) tenantID [])"

section \<open>Targeting filter and shortlist (partners/metrics.go)\<close>

text \<open>
  \<open>strings.ToUpper\<close> and \<open>strings.ToLower\<close> of the Go library. Both have two paths.
  A string whose bytes are all below 0x80 is mapped byte by byte: a-z to A-Z, or A-Z to
  a-z, every other byte kept. Any other string goes through
  \<open>strings.Map(unicode.ToUpper, s)\<close> or \<open>strings.Map(unicode.ToLower, s)\<close>, which
  decode UTF-8 and consult the Unicode case tables; these two functions of the library
  are the fields of the parameter \<open>u\<close>.
\<close>

record unicode =
  mapToUpper :: "string \<Rightarrow> string"
  mapToLower :: "string \<Rightarrow> string"

definition isASCII :: "string \<Rightarrow> bool" where
  "isASCII s = list_all (\<lambda>c. (of_char c :: nat) < 128) s"

definition upper_char :: "char \<Rightarrow> char" where
  "upper_char c =
     (let n = (of_char c :: nat) in if 97 \<le> n \<and> n \<le> 122 then char_of (n - 32) else c)"

definition lower_char :: "char \<Rightarrow> char" where
  "lower_char c =
     (let n = (of_char c :: nat) in if 65 \<le> n \<and> n \<le> 90 then char_of (n + 32) else c)"

definition ToUpper :: "unicode \<Rightarrow> string \<Rightarrow> string" where
  "ToUpper u s = (if isASCII s then map upper_char s else mapToUpper u s)"

definition ToLower :: "unicode \<Rightarrow> string \<Rightarrow> string" where
  "ToLower u s = (if isASCII s then map lower_char s else mapToLower u s)"

text \<open>
  The fields of the OpenRTB request that the program reads. A nil pointer is \<open>None\<close>;
  for the four media objects of an impression only their presence is read. Prices arrive
  as JSON numbers, so they are finite; finite floating-point numbers are compared as the
  real numbers they denote.
\<close>

record Geo =
  geo_Country :: string

record Device =
  dev_Geo :: "Geo option"

record App =
  app_ID :: string
  app_Name :: string
  app_Bundle :: string
  app_Domain :: string

record Site =
  site_Domain :: string
  site_Page :: string

record Imp =
  imp_Banner :: bool
  imp_Video :: bool
  imp_Audio :: bool
  imp_Native :: bool
  imp_BidFloor :: real

record BidRequest =
  req_ID :: string
  req_Imp :: "Imp list"
  req_Site :: "Site option"
  req_App :: "App option"
  req_Device :: "Device option"
  req_TMax :: int

text \<open>
  A search loop of the form \<open>found := false; for x in xs { if p x { found = true; break } }\<close>.
\<close>

fun anyMatch :: "('a \<Rightarrow> bool) \<Rightarrow> 'a list \<Rightarrow> bool" where
  "anyMatch p [] = False"
| "anyMatch p (x # xs) = (if p x then True else anyMatch p xs)"

definition isApp :: "BidRequest \<Rightarrow> bool" where
  "isApp req = (req_App req \<noteq> None)"

text \<open>Rule 1 (source): \<open>False\<close> where the code returns false.\<close>

definition sourceRule :: "unicode \<Rightarrow> BidRequest \<Rightarrow> DSPInventory \<Rightarrow> bool" where
  "sourceRule u req dsp =
     (let sourceMatch =
            anyMatch (\<lambda>s. (isApp req \<and> ToLower u s = ''app'') \<or> (\<not> isApp req \<and> ToLower u s = ''web''))
              (dsp_Source dsp)
      in \<not> (\<not> sourceMatch \<and> length (dsp_Source dsp) > 0))"

text \<open>The local variable \<open>country\<close> of rule 2.\<close>

definition requestCountry :: "unicode \<Rightarrow> BidRequest \<Rightarrow> string" where
  "requestCountry u req =
     (case req_Device req of
        None \<Rightarrow> ''''
      | Some dev \<Rightarrow>
          (case dev_Geo dev of
             None \<Rightarrow> ''''
           | Some geo \<Rightarrow> ToUpper u (geo_Country geo)))"

text \<open>Rule 2 (country): blacklist first, then the whitelist when it is not empty.\<close>

definition countryRule :: "unicode \<Rightarrow> BidRequest \<Rightarrow> DSPInventory \<Rightarrow> bool" where
  "countryRule u req dsp =
     (let country = requestCountry u req in
      if country \<noteq> '''' then
        if anyMatch (\<lambda>bc. ToUpper u bc = country) (dsp_CountryBlackList dsp) then False
        else if length (dsp_Country dsp) > 0 then
          anyMatch (\<lambda>wc. ToUpper u wc = country \<or> ToUpper u wc = ''ANY'') (dsp_Country dsp)
        else True
      else True)"

text \<open>Rule 3 (bundle, app requests only, case-sensitive).\<close>

definition bundleRule :: "BidRequest \<Rightarrow> DSPInventory \<Rightarrow> bool" where
  "bundleRule req dsp =
     (case req_App req of
        None \<Rightarrow> True
      | Some app \<Rightarrow>
          if app_Bundle app \<noteq> '''' then
            if anyMatch (\<lambda>bb. bb = app_Bundle app) (dsp_BundleIDsBlackList dsp) then False
            else if length (dsp_BundleIDs dsp) > 0 then
              anyMatch (\<lambda>wb. wb = app_Bundle app) (dsp_BundleIDs dsp)
            else True
          else True)"

text \<open>Rule 4 (ad formats): some impression carries an object named by some format.\<close>

definition formatHit :: "unicode \<Rightarrow> Imp \<Rightarrow> string \<Rightarrow> bool" where
  "formatHit u imp df =
     (let dfLower = ToLower u df in
        (imp_Banner imp \<and> dfLower = ''banner'') \<or>
        (imp_Video imp \<and> dfLower = ''video'') \<or>
        (imp_Audio imp \<and> dfLower = ''audio'') \<or>
        (imp_Native imp \<and> dfLower = ''native''))"

definition formatRule :: "unicode \<Rightarrow> BidRequest \<Rightarrow> DSPInventory \<Rightarrow> bool" where
  "formatRule u req dsp =
     (if length (dsp_AdFormats dsp) > 0 then
        anyMatch (\<lambda>imp. anyMatch (formatHit u imp) (dsp_AdFormats dsp)) (req_Imp req)
      else True)"

text \<open>
  \<open>MatchTargeting\<close>: the four rules in the order of the code, each returning false at its
  first failure. Steps 5 (IAB categories) and 6 (bid floor) of the code compute local
  values only and contain no return statement, so they do not change the result.
\<close>

definition MatchTargeting :: "unicode \<Rightarrow> BidRequest \<Rightarrow> DSPInventory \<Rightarrow> bool" where
  "MatchTargeting u req dsp =
     (if \<not> sourceRule u req dsp then False
      else if \<not> countryRule u req dsp then False
      else if \<not> bundleRule req dsp then False
      else if \<not> formatRule u req dsp then False
      else True)"

text \<open>
  The loop of \<open>ShortlistDSPs\<close>: an accepted candidate is appended first, and only then
  is the length compared with \<open>limit\<close> (a Go \<open>int\<close>, so it may be zero or negative).
\<close>

fun shortlist_loop ::
  "unicode \<Rightarrow> BidRequest \<Rightarrow> DSPInventory list \<Rightarrow> int \<Rightarrow> DSPInventory list \<Rightarrow> DSPInventory list" where
  "shortlist_loop u req [] limit shortlisted = shortlisted"
| "shortlist_loop u req (dsp # rest) limit shortlisted =
     (if MatchTargeting u req dsp then
        (let shortlisted' = shortlisted @ [dsp] in
         if int (length shortlisted') \<ge> limit then shortlisted'
         else shortlist_loop u req rest limit shortlisted')
      else shortlist_loop u req rest limit shortlisted)"

definition ShortlistDSPs ::
  "unicode \<Rightarrow> BidRequest \<Rightarrow> DSPInventory list \<Rightarrow> int \<Rightarrow> DSPInventory list" where
  "ShortlistDSPs u req candidates limit = shortlist_loop u req candidates limit []"

section \<open>DSP client and auction handler (the OpenRTB 2.5 endpoint)\<close>

text \<open>
  The endpoint file is present in two revisions; the model follows the current one, which
  labels the metrics with \<open>tenant_identifier\<close> and counts SSP responses, as the current
  \<open>InitMetrics\<close> of partners/metrics.go declares them.
\<close>

record Bid =
  bid_ID :: string
  bid_ImpID :: string
  bid_Price :: real

record SeatBid =
  sb_Bid :: "Bid list"
  sb_Seat :: string

record BidResponse =
  resp_ID :: string
  resp_SeatBid :: "SeatBid list"

record bidResult =
  res_resp :: BidResponse
  res_dsp :: DSPInventory

datatype source =
    AuctionEvent_App App
  | AuctionEvent_Web Site

text \<open>
  The generated protobuf message, with the fields that the handler and the logger assign.
  \<open>uint32\<close> fields are 32-bit words; the Go conversion \<open>uint32(x)\<close> is \<open>word_of_int\<close>.
  A \<open>double\<close> field holds a float64, kept here as its 64-bit IEEE 754 pattern, which
  is what the message stores and what its serialization writes.
\<close>

record AuctionEvent =
  ev_TenantId :: "32 word"
  ev_SspPartnerId :: "32 word"
  ev_SspInventoryId :: "32 word"
  ev_SspPartnerAuctionId :: string
  ev_DspPartnerId :: "32 word"
  ev_DspInventoryId :: "32 word"
  ev_DspPrice :: "64 word"
  ev_BidRequestPrice :: "64 word"
  ev_RawBidRequest :: string
  ev_RawDspResponse :: string
  ev_Source :: "source option"
  ev_Hostname :: string
  ev_Timestamp :: int

text \<open>
  What a request does to the outside: metric increments (with their label values), the
  HTTP response, the POST to a DSP endpoint and the call of the bid logger.
\<close>

datatype effect =
    AuctionCounterInc string
  | SSPRequestCounterInc string string string
  | SSPResponseCounterInc string string string string
  | DSPRequestCounterInc string string string
  | DSPResponseCounterInc string string string string
  | DSPLatencyObserve string string string
  | WriteHeader nat
  | HttpError string nat
  | SetHeader string string
  | WriteBody string
  | PostToDSP string string
  | LogCall AuctionEvent

text \<open>
  The environment of one request: the query parameter, the outcome of reading the body,
  the JSON decoders and encoder, the outcome of each HTTP exchange with a DSP (an error
  text for a failed, timed-out or cancelled exchange, else status code and body), the
  order in which the goroutines deliver into the channel, and whether a bid logger is
  installed. Two parts of the Go library complete it: the Unicode case mapping used by
  the targeting filter, and \<open>float64bits\<close>, the bit pattern of the float64 that a price
  denotes.
\<close>

record env =
  accountCode :: string
  readAll :: "string option"
  jsonUnmarshal :: "string \<Rightarrow> BidRequest option"
  httpPost :: "string \<Rightarrow> string \<Rightarrow> string + (nat \<times> string)"
  decodeResponse :: "string \<Rightarrow> BidResponse option"
  jsonMarshal :: "BidResponse \<Rightarrow> string"
  picks :: "nat list"
  haveLogger :: bool
  caseMaps :: unicode
  float64bits :: "real \<Rightarrow> 64 word"

datatype dsp_error =
    TransportError string
  | StatusError nat
  | DecodeError

definition callDSP :: "env \<Rightarrow> DSPInventory \<Rightarrow> string \<Rightarrow> dsp_error + BidResponse" where
  "callDSP e d body =
     (case httpPost e (dsp_EndpointURL d) body of
        Inl err \<Rightarrow> Inl (TransportError err)
      | Inr (code, rbody) \<Rightarrow>
          if code \<noteq> 200 then Inl (StatusError code)
          else (case decodeResponse e rbody of
                  None \<Rightarrow> Inl DecodeError
                | Some bidResp \<Rightarrow> Inr bidResp))"

definition hasBid :: "BidResponse \<Rightarrow> bool" where
  "hasBid r = anyMatch (\<lambda>sb. length (sb_Bid sb) > 0) (resp_SeatBid r)"

text \<open>
  One fan-out goroutine: its effects, and the result it sends into the channel (none after
  an error).
\<close>

definition dspTask :: "env \<Rightarrow> string \<Rightarrow> DSPInventory \<Rightarrow> effect list \<times> bidResult option" where
  "dspTask e body d =
     (let l1 = dsp_PrometheusIdentifier d; l2 = dsp_TenantIdentifier d; l3 = dsp_DSPIdentifier d;
          pre = [DSPRequestCounterInc l1 l2 l3, PostToDSP (dsp_EndpointURL d) body,
                 DSPLatencyObserve l1 l2 l3]
      in case callDSP e d body of
           Inl err \<Rightarrow> (pre @ [DSPResponseCounterInc l1 l2 l3 ''error''], None)
         | Inr r \<Rightarrow>
             (pre @ [DSPResponseCounterInc l1 l2 l3 (if hasBid r then ''bid'' else ''nobid'')],
              Some \<lparr>res_resp = r, res_dsp = d\<rparr>))"

text \<open>
  The goroutines run concurrently; their effects are listed DSP by DSP (counters commute),
  and the results sent are collected in shortlist order before \<open>arrive\<close> reorders them.
\<close>

fun fanOut :: "env \<Rightarrow> string \<Rightarrow> DSPInventory list \<Rightarrow> effect list \<times> bidResult list" where
  "fanOut e body [] = ([], [])"
| "fanOut e body (d # ds) =
     (let (fx, sent) = dspTask e body d; (fxs, rs) = fanOut e body ds
      in (fx @ fxs, (case sent of None \<Rightarrow> rs | Some r \<Rightarrow> r # rs)))"

text \<open>
  The order of arrival in the channel: each number of the schedule picks, among the
  results not yet delivered, the next one to arrive.
\<close>

fun arrive :: "nat list \<Rightarrow> 'a list \<Rightarrow> 'a list" where
  "arrive ks [] = []"
| "arrive [] (x # xs) = x # xs"
| "arrive (k # ks) (x # xs) =
     (let i = k mod length (x # xs)
      in (x # xs) ! i # arrive ks (take i (x # xs) @ drop (Suc i) (x # xs)))"

text \<open>
  The three nested loops of winner selection; the state is \<open>(bestResult, maxPrice)\<close>,
  initially \<open>(nil, 0)\<close>.
\<close>

fun bid_loop :: "bidResult \<Rightarrow> Bid list \<Rightarrow> bidResult option \<times> real \<Rightarrow> bidResult option \<times> real" where
  "bid_loop res [] st = st"
| "bid_loop res (bid # bids) (bestResult, maxPrice) =
     (if bid_Price bid > maxPrice then bid_loop res bids (Some res, bid_Price bid)
      else bid_loop res bids (bestResult, maxPrice))"

fun seat_loop ::
  "bidResult \<Rightarrow> SeatBid list \<Rightarrow> bidResult option \<times> real \<Rightarrow> bidResult option \<times> real" where
  "seat_loop res [] st = st"
| "seat_loop res (sb # sbs) st = seat_loop res sbs (bid_loop res (sb_Bid sb) st)"

fun chan_loop :: "bidResult list \<Rightarrow> bidResult option \<times> real \<Rightarrow> bidResult option \<times> real" where
  "chan_loop [] st = st"
| "chan_loop (res # rest) st = chan_loop rest (seat_loop res (resp_SeatBid (res_resp res)) st)"

definition selectBest :: "bidResult list \<Rightarrow> bidResult option \<times> real" where
  "selectBest arrived = chan_loop arrived (None, 0)"

text \<open>The prices of a response, and of all responses, in the order the loops visit them.\<close>

definition pricesOf :: "bidResult \<Rightarrow> real list" where
  "pricesOf res = concat (map (\<lambda>sb. map bid_Price (sb_Bid sb)) (resp_SeatBid (res_resp res)))"

definition allPrices :: "bidResult list \<Rightarrow> real list" where
  "allPrices rs = concat (map pricesOf rs)"

text \<open>Step 9: the event handed to the logger for the winner.\<close>

definition buildEvent ::
  "(real \<Rightarrow> 64 word) \<Rightarrow> SSPInventory \<Rightarrow> BidRequest \<Rightarrow> string \<Rightarrow> bidResult \<Rightarrow> real \<Rightarrow> string \<Rightarrow>
   AuctionEvent" where
  "buildEvent bits ssp bidReq body best maxPrice respBody =
     \<lparr>ev_TenantId = word_of_int (ssp_TenantID ssp),
      ev_SspPartnerId = word_of_int (ssp_SSPID ssp),
      ev_SspInventoryId = word_of_int (ssp_SSPInventoryID ssp),
      ev_SspPartnerAuctionId = req_ID bidReq,
      ev_DspPartnerId = word_of_int (dsp_DSPID (res_dsp best)),
      ev_DspInventoryId = word_of_int (dsp_DSPInventoryID (res_dsp best)),
      ev_DspPrice = bits maxPrice,
      ev_BidRequestPrice =
        (case req_Imp bidReq of [] \<Rightarrow> 0 | imp # _ \<Rightarrow> bits (imp_BidFloor imp)),
      ev_RawBidRequest = body,
      ev_RawDspResponse = respBody,
      ev_Source =
        (case req_App bidReq of
           Some app \<Rightarrow> Some (AuctionEvent_App app)
         | None \<Rightarrow>
             (case req_Site bidReq of
                Some site \<Rightarrow> Some (AuctionEvent_Web site)
              | None \<Rightarrow> None)),
      ev_Hostname = '''',
      ev_Timestamp = 0\<rparr>"

text \<open>Steps 8 to 10, after the channel has been drained in the order \<open>arrived\<close>.\<close>

definition resolve ::
  "env \<Rightarrow> SSPInventory \<Rightarrow> BidRequest \<Rightarrow> string \<Rightarrow> bidResult list \<Rightarrow> effect list" where
  "resolve e ssp bidReq body arrived =
     (let l1 = ssp_PrometheusIdentifier ssp; l2 = ssp_TenantIdentifier ssp;
          l3 = ssp_SSPIdentifier ssp
      in case selectBest arrived of
           (None, maxPrice) \<Rightarrow> [SSPResponseCounterInc l1 l2 l3 ''no_bid'', WriteHeader 204]
         | (Some best, maxPrice) \<Rightarrow>
             (let respBody = jsonMarshal e (res_resp best)
              in (if haveLogger e
                  then [LogCall (buildEvent (float64bits e) ssp bidReq body best maxPrice
                                   respBody)]
                  else [])
                 @ [SetHeader ''Content-Type'' ''application/json'', WriteBody respBody,
                    AuctionCounterInc ''ok'', SSPResponseCounterInc l1 l2 l3 ''ok'']))"

text \<open>
  \<open>Handle\<close>. The configuration is not reloaded while the request runs, so the three reads
  of the manager see one snapshot.
\<close>

definition Handle :: "env \<Rightarrow> Manager \<Rightarrow> effect list" where
  "Handle e m =
     (case GetConfig m of
        None \<Rightarrow> [AuctionCounterInc ''rejected_adserving_disabled'', WriteHeader 204]
      | Some cfg \<Rightarrow>
        if \<not> AdServing cfg
        then [AuctionCounterInc ''rejected_adserving_disabled'', WriteHeader 204]
        else if accountCode e = '''' then [HttpError ''Missing account_code'' 401]
        else
          (case GetSSPByInventoryCode m (accountCode e) of
             None \<Rightarrow> [HttpError ''Invalid account_code'' 401]
           | Some ssp \<Rightarrow>
               (let l1 = ssp_PrometheusIdentifier ssp; l2 = ssp_TenantIdentifier ssp;
                    l3 = ssp_SSPIdentifier ssp
                in SSPRequestCounterInc l1 l2 l3 #
                   (case readAll e of
                      None \<Rightarrow> [WriteHeader 400]
                    | Some body \<Rightarrow>
                        (case jsonUnmarshal e body of
                           None \<Rightarrow> [WriteHeader 400]
                         | Some bidReq \<Rightarrow>
                             if req_TMax bidReq \<le> 120
                             then [AuctionCounterInc ''rejected_tmax'',
                                   SSPResponseCounterInc l1 l2 l3 ''error'', WriteHeader 204]
                             else
                               (let candidates = GetDSPsByTenant m (ssp_TenantID ssp);
                                    selectedDSPs = ShortlistDSPs (caseMaps e) bidReq candidates 5
                                in if length selectedDSPs = 0
                                   then [SSPResponseCounterInc l1 l2 l3 ''no_bid'', WriteHeader 204]
                                   else
                                     (let (fx, sent) = fanOut e body selectedDSPs
                                      in fx @ resolve e ssp bidReq body
                                                (arrive (picks e) sent))))))))"

text \<open>
  The status line of the response: the first \<open>WriteHeader\<close> or \<open>http.Error\<close> fixes it;
  a body written before any header, as on the winner path, gives 200.
\<close>

fun httpStatus :: "effect list \<Rightarrow> nat" where
  "httpStatus [] = 200"
| "httpStatus (WriteHeader c # fx) = c"
| "httpStatus (HttpError msg c # fx) = c"
| "httpStatus (WriteBody b # fx) = 200"
| "httpStatus (x # fx) = httpStatus fx"

fun isPost :: "effect \<Rightarrow> bool" where
  "isPost (PostToDSP url body) = True"
| "isPost x = False"

definition dspCalls :: "effect list \<Rightarrow> effect list" where
  "dspCalls fx = filter isPost fx"

section \<open>Asynchronous bid logger (logging/bid_logger.go)\<close>

datatype go_panic =
    CloseOfClosedChannel
  | SendOnClosedChannel
  | NilPointerDereference

datatype diag =
    MarshalFailed
  | WriteFailed
  | ChannelFull string

text \<open>
  The rotating file writer of the lumberjack library, as far as the logger uses it: the
  payloads of the successful \<open>Write\<close> calls in order, whether a file is open, and which
  payloads the file system accepts (a refused payload is an I/O error or one over the size
  cap). A write after \<open>Close\<close> opens the file again.
\<close>

record Writer =
  w_writes :: "string list"
  w_open :: bool
  w_accepts :: "string \<Rightarrow> bool"

definition writer_Write :: "string \<Rightarrow> Writer \<Rightarrow> Writer option" where
  "writer_Write p w =
     (if w_accepts w p then Some (w\<lparr>w_writes := w_writes w @ [p], w_open := True\<rparr>) else None)"

definition writer_Close :: "Writer \<Rightarrow> Writer" where
  "writer_Close w = w\<lparr>w_open := False\<rparr>"

text \<open>
  The goroutine that runs \<open>start\<close> is in one of three states: \<open>Polling\<close>, running and
  about to receive from the channel; \<open>Holding\<close>, having received an event whose
  \<open>writeEvent\<close> has not yet run; \<open>Idle\<close>, not running, which is blocked in the receive
  while the channel is open and past the loop once it is closed.
\<close>

datatype consumer =
    Polling
  | Holding AuctionEvent
  | Idle

text \<open>
  \<open>BidLogger\<close>: the channel is its buffer, its capacity, whether it has been closed, and
  the state of its one receiver. The mutex guards the single consumer's writes and the
  field \<open>once\<close> is never used, so neither appears.
\<close>

record BidLogger =
  logChan :: "AuctionEvent list"
  chanCap :: nat
  chanClosed :: bool
  receiver :: consumer
  filePath :: string
  writer :: "Writer option"
  hostname :: string

text \<open>
  The logger that \<open>InitBidLogger\<close> installs, from the values it read; \<open>go instance.start()\<close>
  has launched the consumer.
\<close>

definition newBidLogger :: "string \<Rightarrow> nat \<Rightarrow> string \<Rightarrow> (string \<Rightarrow> bool) \<Rightarrow> BidLogger" where
  "newBidLogger path bufferSize host accepts =
     \<lparr>logChan = [], chanCap = bufferSize, chanClosed = False, receiver = Polling,
      filePath = path,
      writer = Some \<lparr>w_writes = [], w_open = False, w_accepts = accepts\<rparr>,
      hostname = host\<rparr>"

text \<open>\<open>hex.EncodeToString\<close>: two digits of the table per byte, high nibble first.\<close>

definition hextable :: string where
  "hextable = ''0123456789abcdef''"

definition encodeByte :: "char \<Rightarrow> string" where
  "encodeByte c = [hextable ! ((of_char c :: nat) div 16), hextable ! ((of_char c :: nat) mod 16)]"

definition EncodeToString :: "string \<Rightarrow> string" where
  "EncodeToString src = concat (map encodeByte src)"



definition newline :: char where
  "newline = CHR 0x0A"

subsection \<open>The binary schema of the auction event\<close>

text \<open>
  Modelled from the spec: the generated protobuf code of the auction event (package
  proto/generated) and its schema are not among the sources. The spec gives the record's
  fields in order and says it is "encoded as a length-delimited binary structured record
  (schema-evolvable)". The model numbers the fields 1 to 13 in the spec's order and writes
  each as its number, the length of its payload and the payload; numbers and lengths are
  base-128 varints. A number is the little-endian bytes of its value (a signed one after
  the zigzag map), a text or byte field is its bytes, and the source is a nested record:
  empty when absent, else field 1 holding the app record or field 2 holding the web
  record.
\<close>

function varint :: "nat \<Rightarrow> string" where
  "varint n = (if n < 128 then [char_of n] else char_of (128 + n mod 128) # varint (n div 128))"
  by pat_completeness auto
termination
  by (relation "measure id") auto


definition putField :: "nat \<Rightarrow> string \<Rightarrow> string" where
  "putField k payload = varint k @ varint (length payload) @ payload"

definition encodeFields :: "(nat \<times> string) list \<Rightarrow> string" where
  "encodeFields kps = concat (map (\<lambda>(k, p). putField k p) kps)"



function natBytes :: "nat \<Rightarrow> string" where
  "natBytes n = (if n = 0 then [] else char_of (n mod 256) # natBytes (n div 256))"
  by pat_completeness auto
termination
  by (relation "measure id") auto


definition zigzag :: "int \<Rightarrow> nat" where
  "zigzag t = (if 0 \<le> t then nat (2 * t) else nat (- 2 * t - 1))"


definition appFields :: "App \<Rightarrow> (nat \<times> string) list" where
  "appFields a = [(1, app_ID a), (2, app_Name a), (3, app_Bundle a), (4, app_Domain a)]"

definition webFields :: "Site \<Rightarrow> (nat \<times> string) list" where
  "webFields w = [(1, site_Domain w), (2, site_Page w)]"

definition sourceFields :: "source option \<Rightarrow> (nat \<times> string) list" where
  "sourceFields src =
     (case src of
        None \<Rightarrow> []
      | Some (AuctionEvent_App a) \<Rightarrow> [(1, encodeFields (appFields a))]
      | Some (AuctionEvent_Web w) \<Rightarrow> [(2, encodeFields (webFields w))])"

definition eventFields :: "AuctionEvent \<Rightarrow> (nat \<times> string) list" where
  "eventFields ev =
     [(1, natBytes (unat (ev_TenantId ev))),
      (2, natBytes (unat (ev_SspPartnerId ev))),
      (3, natBytes (unat (ev_SspInventoryId ev))),
      (4, ev_SspPartnerAuctionId ev),
      (5, natBytes (unat (ev_DspPartnerId ev))),
      (6, natBytes (unat (ev_DspInventoryId ev))),
      (7, natBytes (unat (ev_DspPrice ev))),
      (8, natBytes (unat (ev_BidRequestPrice ev))),
      (9, ev_RawBidRequest ev),
      (10, ev_RawDspResponse ev),
      (11, encodeFields (sourceFields (ev_Source ev))),
      (12, ev_Hostname ev),
      (13, natBytes (zigzag (ev_Timestamp ev)))]"

text \<open>
  Modelled from the spec: the serialization of the auction event, which the generated
  code (not among the sources) hands to \<open>proto.Marshal\<close>: the thirteen fields of the
  spec's record, each length-delimited.
\<close>

definition Marshal :: "AuctionEvent \<Rightarrow> string" where
  "Marshal ev = encodeFields (eventFields ev)"





text \<open>
  \<open>proto.Marshal\<close> as \<open>writeEvent\<close> calls it, with the modelled schema: it reports no
  error.
\<close>

definition protoMarshal :: "AuctionEvent \<Rightarrow> string option" where
  "protoMarshal ev = Some (Marshal ev)"

subsection \<open>Logging, the consumer and closing\<close>


text \<open>
  \<open>writeEvent\<close>: \<open>proto.Marshal\<close> of the generated message is the parameter \<open>marshal\<close>
  (\<open>None\<close> for an error). The result is a panic, or the logger afterwards with the
  messages sent to the application log.
\<close>

definition writeEvent ::
  "(AuctionEvent \<Rightarrow> string option) \<Rightarrow> AuctionEvent \<Rightarrow> BidLogger \<Rightarrow>
   go_panic + (BidLogger \<times> diag list)" where
  "writeEvent marshal event l =
     (case marshal event of
        None \<Rightarrow> Inr (l, [MarshalFailed])
      | Some data \<Rightarrow>
          (let hexData = EncodeToString data in
           case writer l of
             None \<Rightarrow> Inl NilPointerDereference
           | Some w \<Rightarrow>
               (case writer_Write (hexData @ [newline]) w of
                  None \<Rightarrow> Inr (l, [WriteFailed])
                | Some w' \<Rightarrow> Inr (l\<lparr>writer := Some w'\<rparr>, []))))"

text \<open>
  \<open>Log\<close>: stamps the event, then the \<open>select\<close> with a \<open>default\<close> branch. \<open>now\<close> is
  \<open>time.Now().UnixMilli()\<close>. A send on a closed channel panics. The send goes through
  when the receiver is blocked in its receive, which hands the event to it directly
  whatever the capacity, or when the buffer has room; otherwise the event is dropped with
  a warning.
\<close>

definition stamp :: "BidLogger \<Rightarrow> int \<Rightarrow> AuctionEvent \<Rightarrow> AuctionEvent" where
  "stamp l now event = event\<lparr>ev_Hostname := hostname l, ev_Timestamp := now\<rparr>"

definition Log :: "int \<Rightarrow> AuctionEvent \<Rightarrow> BidLogger \<Rightarrow> go_panic + (BidLogger \<times> diag list)" where
  "Log now event l =
     (let event' = stamp l now event in
      if chanClosed l then Inl SendOnClosedChannel
      else if receiver l = Idle then Inr (l\<lparr>receiver := Holding event'\<rparr>, [])
      else if length (logChan l) < chanCap l
      then Inr (l\<lparr>logChan := logChan l @ [event']\<rparr>, [])
      else Inr (l, [ChannelFull (ev_SspPartnerAuctionId event')]))"

text \<open>
  The events the consumer has still to write, in the order it will receive them: the one
  it holds, then the buffer.
\<close>

definition pending :: "BidLogger \<Rightarrow> AuctionEvent list" where
  "pending l = (case receiver l of Holding ev \<Rightarrow> [ev] | _ \<Rightarrow> []) @ logChan l"

text \<open>
  The consumer \<open>start\<close>: the iterations of its \<open>range\<close> loop over the events received, and
  the loop run from the logger's state until the channel is drained, where it blocks or,
  on a closed channel, ends.
\<close>

fun start_loop ::
  "(AuctionEvent \<Rightarrow> string option) \<Rightarrow> AuctionEvent list \<Rightarrow> BidLogger \<Rightarrow>
   go_panic + (BidLogger \<times> diag list)" where
  "start_loop marshal [] l = Inr (l, [])"
| "start_loop marshal (event # events) l =
     (case writeEvent marshal event l of
        Inl p \<Rightarrow> Inl p
      | Inr (l', ds) \<Rightarrow>
          (case start_loop marshal events l' of
             Inl p \<Rightarrow> Inl p
           | Inr (l'', ds') \<Rightarrow> Inr (l'', ds @ ds')))"

definition start :: "(AuctionEvent \<Rightarrow> string option) \<Rightarrow> BidLogger \<Rightarrow> go_panic + (BidLogger \<times> diag list)" where
  "start marshal l =
     (if receiver l = Idle then Inr (l, [])
      else (case start_loop marshal (pending l) (l\<lparr>logChan := [], receiver := Polling\<rparr>) of
              Inl p \<Rightarrow> Inl p
            | Inr (l', ds) \<Rightarrow> Inr (l'\<lparr>receiver := Idle\<rparr>, ds)))"



text \<open>
  \<open>Close\<close>: \<open>close(l.logChan)\<close> comes first and is not guarded; closing a closed channel
  panics in Go. A consumer blocked in the receive leaves its loop, which the state \<open>Idle\<close>
  covers.
\<close>

definition Close :: "BidLogger \<Rightarrow> go_panic + BidLogger" where
  "Close l =
     (if chanClosed l then Inl CloseOfClosedChannel
      else Inr (l\<lparr>chanClosed := True, writer := map_option writer_Close (writer l)\<rparr>))"

section \<open>Sample data\<close>

definition dspA :: DSPInventory where
  "dspA =
     \<lparr>dsp_Name = ''Alpha'', dsp_DSPIdentifier = ''dsp-a'', dsp_EndpointName = ''main'',
      dsp_EndpointURL = ''http://a.example/bid'', dsp_QPS = 100, dsp_Tmax = 200, dsp_ID = 1,
      dsp_InventoryCode = ''A1'', dsp_Status = ''Active'', dsp_MinBidFloor = '''',
      dsp_MaxBidFloor = '''', dsp_AdFormats = [''banner''], dsp_Source = [''App''],
      dsp_Country = [''ANY''], dsp_CountryBlackList = [''fr''], dsp_IABCategories = [],
      dsp_BundleIDs = [], dsp_BundleIDsBlackList = [], dsp_SSPs = [], dsp_SSPsBlackList = [],
      dsp_Publishers = [], dsp_PublishersBlackList = [], dsp_TenantIdentifier = ''t7'',
      dsp_TenantID = 7, dsp_DSPID = 11, dsp_DSPInventoryID = 111, dsp_PrometheusID = ''p-a'',
      dsp_PrometheusIdentifier = ''alpha''\<rparr>"

definition dspB :: DSPInventory where
  "dspB = dspA\<lparr>dsp_Name := ''Beta'', dsp_DSPIdentifier := ''dsp-b'',
     dsp_EndpointURL := ''http://b.example/bid'', dsp_DSPID := 12, dsp_DSPInventoryID := 112,
     dsp_PrometheusIdentifier := ''beta'', dsp_CountryBlackList := [], dsp_Country := [''DE'']\<rparr>"

definition dspC :: DSPInventory where
  "dspC = dspA\<lparr>dsp_Name := ''Gamma'', dsp_Status := ''Paused'', dsp_DSPID := 13\<rparr>"

definition dspD :: DSPInventory where
  "dspD = dspA\<lparr>dsp_Name := ''Delta'', dsp_TenantID := 8, dsp_DSPID := 14\<rparr>"

definition sspA :: SSPInventory where
  "sspA =
     \<lparr>ssp_Name = ''Pub'', ssp_ID = 1, ssp_InventoryName = ''inv'', ssp_Status = ''Inactive'',
      ssp_InventoryCode = ''acc-1'', ssp_TenantIdentifier = ''t7'', ssp_SSPIdentifier = ''ssp-1'',
      ssp_TenantID = 7, ssp_SSPID = 21, ssp_SSPInventoryID = 211, ssp_PrometheusID = ''p-s'',
      ssp_PrometheusIdentifier = ''pub'', ssp_AdFormats = [''banner'']\<rparr>"

definition cfgA :: PartnersConfig where
  "cfgA = \<lparr>SSPInventories = [sspA], DSPInventories = [dspA, dspC, dspD, dspB],
            AdServing = True, TS = ''1''\<rparr>"

definition mgrA :: Manager where
  "mgrA = \<lparr>config = Some cfgA\<rparr>"

definition reqA :: BidRequest where
  "reqA =
     \<lparr>req_ID = ''r1'',
      req_Imp = [\<lparr>imp_Banner = True, imp_Video = False, imp_Audio = False, imp_Native = False,
                  imp_BidFloor = 0.5\<rparr>],
      req_Site = None,
      req_App = Some \<lparr>app_ID = ''a'', app_Name = ''n'', app_Bundle = ''com.x'', app_Domain = ''x.com''\<rparr>,
      req_Device = Some \<lparr>dev_Geo = Some \<lparr>geo_Country = ''us''\<rparr>\<rparr>,
      req_TMax = 300\<rparr>"

definition reqFR :: BidRequest where
  "reqFR = reqA\<lparr>req_Device := Some \<lparr>dev_Geo = Some \<lparr>geo_Country = ''FR''\<rparr>\<rparr>\<rparr>"

definition reqSlow :: BidRequest where
  "reqSlow = reqA\<lparr>req_TMax := 100\<rparr>"

definition respOf :: "real \<Rightarrow> BidResponse" where
  "respOf p =
     \<lparr>resp_ID = ''r1'',
      resp_SeatBid = [\<lparr>sb_Bid = [\<lparr>bid_ID = ''b'', bid_ImpID = ''1'', bid_Price = p\<rparr>],
                       sb_Seat = ''s''\<rparr>]\<rparr>"

text \<open>
  The letter u followed by U+017F (Latin small letter long s) in UTF-8; Unicode's upper
  case of U+017F is S. The sample case maps know this one string and leave every other
  string with a byte of 0x80 or above as it is.
\<close>

definition longS_us :: string where
  "longS_us = [CHR ''u'', CHR 0xC5, CHR 0xBF]"

definition caseMapsA :: unicode where
  "caseMapsA = \<lparr>mapToUpper = (\<lambda>s. if s = longS_us then ''US'' else s), mapToLower = (\<lambda>s. s)\<rparr>"

text \<open>
  A sample environment: the body \<open>''slow''\<close> parses to the request with TMax 100, any
  other body to the sample request; DSP Alpha answers with the price \<open>pa\<close>.
\<close>

definition envA :: "real \<Rightarrow> env" where
  "envA pa =
     \<lparr>accountCode = ''acc-1'',
      readAll = Some ''body'',
      jsonUnmarshal = (\<lambda>b. if b = ''slow'' then Some reqSlow else Some reqA),
      httpPost = (\<lambda>url b. if url = ''http://a.example/bid'' then Inr (200, ''pa'')
                           else Inl ''timeout''),
      decodeResponse = (\<lambda>b. Some (respOf pa)),
      jsonMarshal = (\<lambda>r. ''json''),
      picks = [],
      haveLogger = False,
      caseMaps = caseMapsA,
      float64bits = (\<lambda>x. if x = 1 / 2 then 0x3FE0000000000000
                          else if x = 1 then 0x3FF0000000000000
                          else if x = 3 then 0x4008000000000000 else 0)\<rparr>"

definition eventA :: AuctionEvent where
  "eventA =
     \<lparr>ev_TenantId = 7, ev_SspPartnerId = 21, ev_SspInventoryId = 211,
      ev_SspPartnerAuctionId = ''r1'', ev_DspPartnerId = 11, ev_DspInventoryId = 111,
      ev_DspPrice = 0x4008000000000000, ev_BidRequestPrice = 0x3FE0000000000000,
      ev_RawBidRequest = ''body'',
      ev_RawDspResponse = ''json'', ev_Source = None, ev_Hostname = '''', ev_Timestamp = 0\<rparr>"

definition loggerA :: BidLogger where
  "loggerA = newBidLogger ''/opt/adserving/logs/auction_events.pb.log'' 2 ''host1'' (\<lambda>p. True)"


section \<open>Properties of the partner registry and the shortlist\<close>

lemma dsp_scan_filter:
  "dsp_scan ds t acc = acc @ filter (\<lambda>d. dsp_TenantID d = t \<and> dsp_Status d = ''Active'') ds"
  by (induction ds arbitrary: acc) simp_all


lemma anyMatch_iff: "anyMatch p xs = (\<exists>x\<in>set xs. p x)"
  by (induction xs) simp_all

lemma shortlist_loop_take:
  "int (length acc) < limit \<Longrightarrow>
   shortlist_loop u req cs limit acc =
     acc @ take (nat limit - length acc) (filter (MatchTargeting u req) cs)"
proof (induction cs arbitrary: acc)
  case Nil
  then show ?case by simp
next
  case (Cons d ds)
  show ?case
  proof (cases "MatchTargeting u req d")
    case False
    then show ?thesis using Cons by simp
  next
    case True
    show ?thesis
    proof (cases "int (length (acc @ [d])) \<ge> limit")
      case full: True
      with Cons.prems have "nat limit - length acc = 1" by simp
      with True full show ?thesis by (simp add: Let_def)
    next
      case notfull: False
      then have lt: "int (length (acc @ [d])) < limit" by simp
      have "nat limit - length acc = Suc (nat limit - length (acc @ [d]))"
        using lt by simp
      with True notfull Cons.IH[OF lt] show ?thesis by (simp add: Let_def)
    qed
  qed
qed

lemma ToUpper_nonempty:
  "s \<noteq> [] \<Longrightarrow> \<forall>t. t \<noteq> [] \<longrightarrow> mapToUpper u t \<noteq> [] \<Longrightarrow> ToUpper u s \<noteq> []"
  by (simp add: ToUpper_def)

lemma ToUpper_ANY: "ToUpper u ''ANY'' = ''ANY''"
proof -
  have "isASCII ''ANY''" by code_simp
  moreover have "map upper_char ''ANY'' = ''ANY''" by code_simp
  ultimately show ?thesis by (simp add: ToUpper_def)
qed

text \<open>
  Claim C3 (amended). For every request, every candidate list and every limit of at least
  1 (and whatever the Unicode case maps are), \<open>ShortlistDSPs\<close> returns the first \<open>limit\<close> candidates, in order, for which
  \<open>MatchTargeting\<close> holds; so its length is at most the limit.
\<close>

theorem ShortlistDSPs_cap_prefix:
  assumes "1 \<le> limit"
  shows "ShortlistDSPs u req candidates limit =
           take (nat limit) (filter (MatchTargeting u req) candidates)
         \<and> int (length (ShortlistDSPs u req candidates limit)) \<le> limit"
proof -
  have eq: "ShortlistDSPs u req candidates limit =
              take (nat limit) (filter (MatchTargeting u req) candidates)"
    using assms by (simp add: ShortlistDSPs_def shortlist_loop_take)
  have "length (take (nat limit) (filter (MatchTargeting u req) candidates)) \<le> nat limit"
    by simp
  with assms eq show ?thesis by simp
qed

lemma match_reqA_dspA: "MatchTargeting caseMapsA reqA dspA" by code_simp
lemma match_reqA_dspB: "\<not> MatchTargeting caseMapsA reqA dspB" by code_simp

text \<open>
  The amended claim C3 at the limit 1: the first matching candidate alone is returned.
\<close>

theorem ShortlistDSPs_cap_prefix_witness:
  "(1::int) \<le> 1 \<and> ShortlistDSPs caseMapsA reqA [dspB, dspA, dspA] 1 = [dspA]"
  using ShortlistDSPs_cap_prefix
          [where limit = 1 and u = caseMapsA and req = reqA and candidates = "[dspB, dspA, dspA]"]
  by (simp add: match_reqA_dspA match_reqA_dspB)

text \<open>
  Claim C3 as stated fails at the limit 0: the loop appends the first matching candidate
  before it compares the length with the limit, so one record is returned.
\<close>

theorem ShortlistDSPs_limit_zero_counterexample:
  "length (ShortlistDSPs caseMapsA reqA [dspA] 0) = 1
   \<and> \<not> int (length (ShortlistDSPs caseMapsA reqA [dspA] 0)) \<le> 0"
  by (simp add: ShortlistDSPs_def match_reqA_dspA)

text \<open>
  Claim C6. \<open>GetDSPsByTenant\<close> returns exactly the records of the current snapshot whose
  tenant id is the argument and whose status is "Active", in snapshot order, and the empty
  list when no configuration has been loaded.
\<close>

theorem GetDSPsByTenant_filter:
  "GetDSPsByTenant m tenantID =
     (case GetConfig m of
        None \<Rightarrow> []
      | Some cfg \<Rightarrow>
          filter (\<lambda>d. dsp_TenantID d = tenantID \<and> dsp_Status d = ''Active'') (DSPInventories cfg))"
  by (simp add: GetDSPsByTenant_def dsp_scan_filter split: option.split)

text \<open>
  Claim C6 on the sample snapshot: of four records, the paused one and the one of another
  tenant are left out; a fresh manager gives the empty list.
\<close>

theorem GetDSPsByTenant_filter_witness:
  "GetDSPsByTenant mgrA 7 = [dspA, dspB] \<and> GetDSPsByTenant NewManager 7 = []"
  using GetDSPsByTenant_filter [of mgrA 7] GetDSPsByTenant_filter [of NewManager 7]
  by (simp add: GetConfig_def mgrA_def cfgA_def NewManager_def dspA_def dspB_def dspC_def dspD_def)

text \<open>
  Claim C5. \<open>Load\<close> returns an error exactly when the file cannot be read or its
  contents do not decode; after an error \<open>GetConfig\<close> returns what it returned before;
  and the stored snapshot changes only when both the read and the decoding succeeded.
\<close>

theorem Load_error_iff_keeps_snapshot:
  "(fst (Load readFile unmarshal path m) \<noteq> None) =
     ((\<exists>err. readFile path = Inl err) \<or>
      (\<exists>data err. readFile path = Inr data \<and> unmarshal data = Inl err))
   \<and> (fst (Load readFile unmarshal path m) \<noteq> None \<longrightarrow>
        GetConfig (snd (Load readFile unmarshal path m)) = GetConfig m)
   \<and> (GetConfig (snd (Load readFile unmarshal path m)) \<noteq> GetConfig m \<longrightarrow>
        (\<exists>data cfg. readFile path = Inr data \<and> unmarshal data = Inr cfg
           \<and> GetConfig (snd (Load readFile unmarshal path m)) = Some cfg))"
  by (auto simp: Load_def GetConfig_def split: sum.splits)

text \<open>
  Claim C5 at an unreadable file, at a malformed file, and at a first successful load.
\<close>

theorem Load_error_iff_keeps_snapshot_witness:
  "fst (Load (\<lambda>p. Inl ''no such file'') (\<lambda>d. Inr cfgA) ''p.json'' mgrA) \<noteq> None
   \<and> GetConfig (snd (Load (\<lambda>p. Inl ''no such file'') (\<lambda>d. Inr cfgA) ''p.json'' mgrA)) = Some cfgA
   \<and> fst (Load (\<lambda>p. Inr ''{'') (\<lambda>d. Inl ''unexpected end'') ''p.json'' mgrA) \<noteq> None
   \<and> GetConfig (snd (Load (\<lambda>p. Inr ''{'') (\<lambda>d. Inl ''unexpected end'') ''p.json'' mgrA)) = Some cfgA
   \<and> GetConfig (snd (Load (\<lambda>p. Inr ''{}'') (\<lambda>d. Inr cfgA) ''p.json'' NewManager)) = Some cfgA"
  using Load_error_iff_keeps_snapshot [of "\<lambda>p. Inl ''no such file''" "\<lambda>d. Inr cfgA" "''p.json''" mgrA]
        Load_error_iff_keeps_snapshot [of "\<lambda>p. Inr ''{''" "\<lambda>d. Inl ''unexpected end''" "''p.json''" mgrA]
        Load_error_iff_keeps_snapshot [of "\<lambda>p. Inr ''{}''" "\<lambda>d. Inr cfgA" "''p.json''" NewManager]
  by (simp add: GetConfig_def mgrA_def NewManager_def Load_def)

section \<open>Winner selection\<close>

lemma fold_max_ge: "(m::real) \<le> fold max ps m"
proof (induction ps arbitrary: m)
  case Nil
  show ?case by simp
next
  case (Cons p ps)
  have "m \<le> max p m" by simp
  also have "max p m \<le> fold max ps (max p m)" by (rule Cons.IH)
  finally show ?case by simp
qed

lemma fold_max_upper: "p \<in> set ps \<Longrightarrow> (p::real) \<le> fold max ps m"
proof (induction ps arbitrary: m)
  case Nil
  then show ?case by simp
next
  case (Cons q ps)
  show ?case
  proof (cases "p = q")
    case True
    have "p \<le> max q m" using True by simp
    also have "max q m \<le> fold max ps (max q m)" by (rule fold_max_ge)
    finally show ?thesis by simp
  next
    case False
    with Cons.prems have "p \<in> set ps" by simp
    then show ?thesis using Cons.IH by simp
  qed
qed

lemma fold_max_in: "fold max ps m \<noteq> m \<Longrightarrow> fold max ps (m::real) \<in> set ps"
proof (induction ps arbitrary: m)
  case Nil
  then show ?case by simp
next
  case (Cons q ps)
  show ?case
  proof (cases "fold max ps (max q m) = max q m")
    case True
    with Cons.prems have "max q m \<noteq> m" by simp
    then have "max q m = q" by (simp add: max_def split: if_splits)
    with True show ?thesis by simp
  next
    case False
    then have "fold max ps (max q m) \<in> set ps" by (rule Cons.IH)
    then show ?thesis by simp
  qed
qed

lemma bid_loop_char:
  "bid_loop res bids (b, m) =
     (if fold max (map bid_Price bids) m = m then b else Some res,
      fold max (map bid_Price bids) m)"
proof (induction bids arbitrary: b m)
  case Nil
  then show ?case by simp
next
  case (Cons bid bids)
  show ?case
  proof (cases "bid_Price bid > m")
    case True
    then have mx: "max (bid_Price bid) m = bid_Price bid" by simp
    have "bid_Price bid \<le> fold max (map bid_Price bids) (bid_Price bid)"
      by (rule fold_max_ge)
    with True have ne: "fold max (map bid_Price bids) (bid_Price bid) \<noteq> m" by simp
    show ?thesis using True Cons.IH[of "Some res" "bid_Price bid"] mx ne by simp
  next
    case False
    then have mx: "max (bid_Price bid) m = m" by simp
    show ?thesis using False Cons.IH[of b m] mx by simp
  qed
qed

lemma seat_loop_char:
  "seat_loop res sbs (b, m) =
     (if fold max (concat (map (\<lambda>sb. map bid_Price (sb_Bid sb)) sbs)) m = m then b else Some res,
      fold max (concat (map (\<lambda>sb. map bid_Price (sb_Bid sb)) sbs)) m)"
proof (induction sbs arbitrary: b m)
  case Nil
  then show ?case by simp
next
  case (Cons sb sbs)
  define m' where "m' = fold max (map bid_Price (sb_Bid sb)) m"
  define F where "F = fold max (concat (map (\<lambda>sb. map bid_Price (sb_Bid sb)) sbs)) m'"
  have ge: "m \<le> m'" unfolding m'_def by (rule fold_max_ge)
  have ge': "m' \<le> F" unfolding F_def by (rule fold_max_ge)
  have F: "fold max (concat (map (\<lambda>sb. map bid_Price (sb_Bid sb)) (sb # sbs))) m = F"
    by (simp add: F_def m'_def)
  have "seat_loop res (sb # sbs) (b, m) = seat_loop res sbs (if m' = m then b else Some res, m')"
    by (simp add: bid_loop_char m'_def)
  also have "\<dots> = (if F = m' then (if m' = m then b else Some res) else Some res, F)"
    unfolding F_def by (rule Cons.IH)
  also have "\<dots> = (if F = m then b else Some res, F)"
    using ge ge' by auto
  finally show ?case unfolding F .
qed

lemma chan_loop_char:
  "chan_loop rs (b, m) =
     (if fold max (allPrices rs) m = m then b
      else find (\<lambda>r. fold max (allPrices rs) m \<in> set (pricesOf r)) rs,
      fold max (allPrices rs) m)"
proof (induction rs arbitrary: b m)
  case Nil
  then show ?case by (simp add: allPrices_def)
next
  case (Cons r rs)
  define m' where "m' = fold max (pricesOf r) m"
  define F where "F = fold max (allPrices rs) m'"
  have ge: "m \<le> m'" unfolding m'_def by (rule fold_max_ge)
  have ge': "m' \<le> F" unfolding F_def by (rule fold_max_ge)
  have F: "fold max (allPrices (r # rs)) m = F"
    by (simp add: F_def m'_def allPrices_def)
  have inA: "m' \<noteq> m \<Longrightarrow> m' \<in> set (pricesOf r)"
    unfolding m'_def by (rule fold_max_in)
  have notinA: "F \<noteq> m' \<Longrightarrow> F \<notin> set (pricesOf r)"
  proof
    assume "F \<noteq> m'" "F \<in> set (pricesOf r)"
    then have "F \<le> m'" unfolding m'_def by (intro fold_max_upper)
    with ge' \<open>F \<noteq> m'\<close> show False by simp
  qed
  have "chan_loop (r # rs) (b, m) = chan_loop rs (if m' = m then b else Some r, m')"
    by (simp add: seat_loop_char m'_def pricesOf_def)
  also have "\<dots> = (if F = m' then (if m' = m then b else Some r)
                     else find (\<lambda>r. F \<in> set (pricesOf r)) rs, F)"
    unfolding F_def by (rule Cons.IH)
  also have "\<dots> = (if F = m then b else find (\<lambda>r. F \<in> set (pricesOf r)) (r # rs), F)"
    using ge ge' inA notinA by auto
  finally show ?case unfolding F .
qed

lemma fold_max_Max: "ps \<noteq> [] \<Longrightarrow> \<exists>p\<in>set ps. m \<le> p \<Longrightarrow> fold max ps (m::real) = Max (set ps)"
proof -
  assume ne: "ps \<noteq> []" and ex: "\<exists>p\<in>set ps. m \<le> p"
  have "fold max ps m = Max (set (m # ps))" by (simp only: Max.set_eq_fold)
  also have "\<dots> = max m (Max (set ps))" using ne by simp
  also have "\<dots> = Max (set ps)"
  proof -
    from ex obtain p where "p \<in> set ps" "m \<le> p" by blast
    then have "m \<le> Max (set ps)" by (meson List.finite_set Max_ge order_trans)
    then show ?thesis by simp
  qed
  finally show ?thesis .
qed

text \<open>
  Claim C1 (amended). Whenever some received bid has a price above 0, the winner is the
  first response, in arrival order, that contains a bid of the greatest price among all
  received bids, and the recorded price is that greatest price; a later response with an
  equal price does not replace it.
\<close>

theorem selectBest_first_max:
  assumes "\<exists>p\<in>set (allPrices arrived). p > 0"
  shows "\<exists>best. selectBest arrived = (Some best, Max (set (allPrices arrived)))
           \<and> find (\<lambda>r. Max (set (allPrices arrived)) \<in> set (pricesOf r)) arrived = Some best
           \<and> (\<forall>p\<in>set (allPrices arrived). p \<le> Max (set (allPrices arrived)))"
proof -
  let ?S = "set (allPrices arrived)"
  from assms obtain p where p: "p \<in> ?S" "p > 0" by blast
  then have ne: "allPrices arrived \<noteq> []" by auto
  have Mge: "p \<le> Max ?S" using p(1) by (intro Max_ge) simp_all
  have "0 \<le> p" using p by simp
  with p have "\<exists>p\<in>?S. 0 \<le> p" by blast
  with ne have F: "fold max (allPrices arrived) 0 = Max ?S" by (rule fold_max_Max)
  have pos: "Max ?S \<noteq> 0" using Mge p(2) by linarith
  have "Max ?S \<in> ?S" using ne by simp
  then obtain r where r: "r \<in> set arrived" "Max ?S \<in> set (pricesOf r)"
    by (auto simp: allPrices_def)
  then have "find (\<lambda>r. Max ?S \<in> set (pricesOf r)) arrived \<noteq> None"
    by (auto simp: find_None_iff)
  then obtain best where best: "find (\<lambda>r. Max ?S \<in> set (pricesOf r)) arrived = Some best"
    by blast
  have "selectBest arrived = (Some best, Max ?S)"
    using F pos best by (simp add: selectBest_def chan_loop_char)
  with best show ?thesis by simp
qed

lemma selectBest_nonpositive:
  assumes "\<forall>p\<in>set (allPrices arrived). p \<le> 0"
  shows "selectBest arrived = (None, 0)"
proof -
  have "fold max (allPrices arrived) 0 = 0"
  proof (rule ccontr)
    assume "fold max (allPrices arrived) 0 \<noteq> 0"
    then have "fold max (allPrices arrived) 0 \<in> set (allPrices arrived)" by (rule fold_max_in)
    with assms have "fold max (allPrices arrived) 0 \<le> 0" by blast
    moreover have "0 \<le> fold max (allPrices arrived) 0" by (rule fold_max_ge)
    ultimately show False using \<open>fold max (allPrices arrived) 0 \<noteq> 0\<close> by simp
  qed
  then show ?thesis by (simp add: selectBest_def chan_loop_char)
qed

section \<open>Targeting and the handler\<close>

lemma requestCountry_geo:
  "req_Device req = Some dev \<Longrightarrow> dev_Geo dev = Some geo \<Longrightarrow>
   requestCountry u req = ToUpper u (geo_Country geo)"
  by (simp add: requestCountry_def)

text \<open>
  Claim C4. For a request whose device country is not empty: if the country equals some
  entry of the DSP's country blacklist after \<open>strings.ToUpper\<close> of both,
  \<open>MatchTargeting\<close> is false whatever the whitelist is; and if no blacklist entry equals
  it so and the whitelist contains "ANY", the country rule passes. \<open>ToUpper\<close> is the Go
  function with its Unicode path; of that path only one fact is used, that it maps no
  non-empty string to the empty one.
\<close>

theorem MatchTargeting_country_blacklist_and_ANY:
  assumes dev: "req_Device req = Some dev" and geo: "dev_Geo dev = Some geo"
      and ne: "geo_Country geo \<noteq> ''''"
      and lib: "\<forall>s. s \<noteq> [] \<longrightarrow> mapToUpper u s \<noteq> []"
  shows "((\<exists>bc\<in>set (dsp_CountryBlackList dsp). ToUpper u bc = ToUpper u (geo_Country geo)) \<longrightarrow>
            (\<forall>wl. \<not> MatchTargeting u req (dsp\<lparr>dsp_Country := wl\<rparr>)))
       \<and> ((\<forall>bc\<in>set (dsp_CountryBlackList dsp). ToUpper u bc \<noteq> ToUpper u (geo_Country geo))
            \<and> ''ANY'' \<in> set (dsp_Country dsp) \<longrightarrow> countryRule u req dsp)"
proof -
  have c: "requestCountry u req = ToUpper u (geo_Country geo)"
    using dev geo by (rule requestCountry_geo)
  have cne: "ToUpper u (geo_Country geo) \<noteq> ''''"
    using ne lib by (rule ToUpper_nonempty)
  have black: "\<not> MatchTargeting u req (dsp\<lparr>dsp_Country := wl\<rparr>)"
    if "\<exists>bc\<in>set (dsp_CountryBlackList dsp). ToUpper u bc = ToUpper u (geo_Country geo)" for wl
  proof -
    have "\<not> countryRule u req (dsp\<lparr>dsp_Country := wl\<rparr>)"
      using that cne by (simp add: countryRule_def c anyMatch_iff)
    then show ?thesis by (simp add: MatchTargeting_def)
  qed
  have any: "countryRule u req dsp"
    if "\<forall>bc\<in>set (dsp_CountryBlackList dsp). ToUpper u bc \<noteq> ToUpper u (geo_Country geo)"
       and "''ANY'' \<in> set (dsp_Country dsp)"
  proof -
    have "\<exists>wc\<in>set (dsp_Country dsp).
            ToUpper u wc = ToUpper u (geo_Country geo) \<or> ToUpper u wc = ''ANY''"
      using that(2) ToUpper_ANY by blast
    moreover have "dsp_Country dsp \<noteq> []" using that(2) by auto
    ultimately show ?thesis
      using that(1) cne by (simp add: countryRule_def c anyMatch_iff)
  qed
  from black any show ?thesis by blast
qed

lemma reqA_dev: "req_Device reqA = Some \<lparr>dev_Geo = Some \<lparr>geo_Country = ''us''\<rparr>\<rparr>"
  by (simp add: reqA_def)

lemma upper_samples:
  "ToUpper caseMapsA ''fr'' = ''FR''" "ToUpper caseMapsA ''us'' = ''US''"
  "ToUpper caseMapsA longS_us = ''US''"
  by code_simp+

lemma caseMapsA_nonempty: "\<forall>s. s \<noteq> [] \<longrightarrow> mapToUpper caseMapsA s \<noteq> []"
  by (simp add: caseMapsA_def)

text \<open>
  Claim C4 on the sample data. The blacklist entry u followed by U+017F has the upper
  case US and so rejects the country "us", although the whitelist holds "ANY"; with the
  blacklist "fr" the country "us" passes the rule through "ANY".
\<close>

theorem MatchTargeting_country_blacklist_and_ANY_witness:
  "\<not> MatchTargeting caseMapsA reqA
        (dspA\<lparr>dsp_CountryBlackList := [longS_us], dsp_Country := [''ANY'']\<rparr>)
   \<and> countryRule caseMapsA reqA dspA"
proof -
  have 1: "\<exists>bc\<in>set (dsp_CountryBlackList (dspA\<lparr>dsp_CountryBlackList := [longS_us]\<rparr>)).
             ToUpper caseMapsA bc = ToUpper caseMapsA (geo_Country \<lparr>geo_Country = ''us''\<rparr>)"
    by (simp add: upper_samples)
  have 2: "(\<forall>bc\<in>set (dsp_CountryBlackList dspA).
              ToUpper caseMapsA bc \<noteq> ToUpper caseMapsA (geo_Country \<lparr>geo_Country = ''us''\<rparr>))
            \<and> ''ANY'' \<in> set (dsp_Country dspA)"
    by (simp add: dspA_def upper_samples)
  have g: "dev_Geo \<lparr>dev_Geo = Some \<lparr>geo_Country = ''us''\<rparr>\<rparr> = Some \<lparr>geo_Country = ''us''\<rparr>"
    and n: "geo_Country \<lparr>geo_Country = ''us''\<rparr> \<noteq> ''''"
    by simp_all
  note T1 = MatchTargeting_country_blacklist_and_ANY
              [OF reqA_dev g n caseMapsA_nonempty,
               where dsp = "dspA\<lparr>dsp_CountryBlackList := [longS_us]\<rparr>"]
  note T2 = MatchTargeting_country_blacklist_and_ANY
              [OF reqA_dev g n caseMapsA_nonempty, where dsp = dspA]
  from T1 1 have "\<forall>wl. \<not> MatchTargeting caseMapsA reqA
                        (dspA\<lparr>dsp_CountryBlackList := [longS_us], dsp_Country := wl\<rparr>)"
    by simp
  then have a: "\<not> MatchTargeting caseMapsA reqA
                   (dspA\<lparr>dsp_CountryBlackList := [longS_us], dsp_Country := [''ANY'']\<rparr>)"
    by (rule spec)
  from T2 2 have b: "countryRule caseMapsA reqA dspA" by blast
  from a b show ?thesis by simp
qed

lemma set_arrive: "set (arrive ks xs) = set xs"
proof (induction ks xs rule: arrive.induct)
  case (1 ks)
  show ?case by simp
next
  case (2 x xs)
  show ?case by simp
next
  case (3 k ks x xs)
  define ys where "ys = x # xs"
  define i where "i = k mod length ys"
  have i: "i < length ys" unfolding i_def ys_def by simp
  have IH: "set (arrive ks (take i ys @ drop (Suc i) ys)) = set (take i ys @ drop (Suc i) ys)"
    using "3.IH"[of i] by (simp add: i_def ys_def)
  have "ys = take i ys @ ys ! i # drop (Suc i) ys" using i by (rule id_take_nth_drop)
  then have "set ys = insert (ys ! i) (set (take i ys @ drop (Suc i) ys))"
    by (metis Un_insert_right list.simps(15) set_append)
  moreover have "arrive (k # ks) ys = ys ! i # arrive ks (take i ys @ drop (Suc i) ys)"
    by (simp add: ys_def i_def Let_def)
  ultimately show ?case using IH unfolding ys_def by simp
qed

text \<open>
  Every schedule delivers each result exactly once, and every order of arrival is the
  outcome of some schedule.
\<close>

lemma arrive_complete: "mset ys = mset xs \<Longrightarrow> \<exists>ks. arrive ks xs = ys"
proof (induction ys arbitrary: xs)
  case Nil
  then have "xs = []" by simp
  then have "arrive [] xs = []" by simp
  then show ?case by blast
next
  case (Cons y ys)
  from Cons.prems have "y \<in> set xs"
    by (metis list.set_intros(1) set_mset_mset)
  then obtain i where i: "i < length xs" "xs ! i = y" by (auto simp: in_set_conv_nth)
  define xs' where "xs' = take i xs @ drop (Suc i) xs"
  have split: "xs = take i xs @ y # drop (Suc i) xs"
    using id_take_nth_drop[OF i(1)] i(2) by simp
  have "mset xs = add_mset y (mset xs')"
    by (subst split) (simp add: xs'_def)
  with Cons.prems have "mset ys = mset xs'" by simp
  from Cons.IH[OF this] obtain ks where ks: "arrive ks xs' = ys" by blast
  from i(1) obtain x rest where xr: "xs = x # rest" by (cases xs) auto
  have "i mod length xs = i" using i(1) by simp
  then have "arrive (i # ks) xs = xs ! i # arrive ks xs'"
    unfolding xr xs'_def by (simp add: Let_def)
  with ks i(2) have "arrive (i # ks) xs = y # ys" by simp
  then show ?case by blast
qed

lemma mset_arrive: "mset (arrive ks xs) = mset xs"
proof (induction ks xs rule: arrive.induct)
  case (1 ks)
  show ?case by simp
next
  case (2 x xs)
  show ?case by simp
next
  case (3 k ks x xs)
  define ys where "ys = x # xs"
  define i where "i = k mod length ys"
  have i: "i < length ys" unfolding i_def ys_def by simp
  have IH: "mset (arrive ks (take i ys @ drop (Suc i) ys)) = mset (take i ys @ drop (Suc i) ys)"
    using "3.IH"[of i] by (simp add: i_def ys_def)
  have "ys = take i ys @ ys ! i # drop (Suc i) ys" using i by (rule id_take_nth_drop)
  then have "mset ys = add_mset (ys ! i) (mset (take i ys @ drop (Suc i) ys))"
    by (metis mset.simps(2) mset_append union_mset_add_mset_right)
  moreover have "arrive (k # ks) ys = ys ! i # arrive ks (take i ys @ drop (Suc i) ys)"
    by (simp add: ys_def i_def Let_def)
  ultimately show ?case using IH unfolding ys_def by simp
qed

lemma httpStatus_dspTask: "httpStatus (fst (dspTask e body d) @ rest) = httpStatus rest"
  by (simp add: dspTask_def Let_def split: sum.split)

lemma httpStatus_fanOut: "httpStatus (fst (fanOut e body ds) @ rest) = httpStatus rest"
proof (induction ds)
  case Nil
  show ?case by simp
next
  case (Cons d ds)
  have "fst (fanOut e body (d # ds)) = fst (dspTask e body d) @ fst (fanOut e body ds)"
    by (simp add: split_beta Let_def)
  then show ?case using Cons.IH by (simp add: httpStatus_dspTask)
qed

lemma Handle_after_parse:
  assumes "GetConfig m = Some cfg" "AdServing cfg" "accountCode e \<noteq> ''''"
      and "GetSSPByInventoryCode m (accountCode e) = Some ssp"
      and "readAll e = Some body" "jsonUnmarshal e body = Some bidReq"
  shows "Handle e m =
           SSPRequestCounterInc (ssp_PrometheusIdentifier ssp) (ssp_TenantIdentifier ssp)
               (ssp_SSPIdentifier ssp) #
           (if req_TMax bidReq \<le> 120
            then [AuctionCounterInc ''rejected_tmax'',
                  SSPResponseCounterInc (ssp_PrometheusIdentifier ssp) (ssp_TenantIdentifier ssp)
                    (ssp_SSPIdentifier ssp) ''error'', WriteHeader 204]
            else (let sel = ShortlistDSPs (caseMaps e) bidReq (GetDSPsByTenant m (ssp_TenantID ssp)) 5
                  in if sel = []
                     then [SSPResponseCounterInc (ssp_PrometheusIdentifier ssp)
                             (ssp_TenantIdentifier ssp) (ssp_SSPIdentifier ssp) ''no_bid'',
                           WriteHeader 204]
                     else fst (fanOut e body sel) @
                          resolve e ssp bidReq body (arrive (picks e) (snd (fanOut e body sel)))))"
  using assms by (simp add: Handle_def Let_def split_beta)

text \<open>
  Claim C2. When the request reaches the TMax check (ad serving on, the account code
  resolved, the body read and parsed) and TMax is at most 120, the handler counts the SSP
  request, increments the auction counter with \<open>rejected_tmax\<close> and the SSP response
  counter with \<open>error\<close>, answers 204, and does nothing else: no DSP is called.
\<close>

theorem Handle_rejects_small_TMax:
  assumes "GetConfig m = Some cfg" "AdServing cfg" "accountCode e \<noteq> ''''"
      and "GetSSPByInventoryCode m (accountCode e) = Some ssp"
      and "readAll e = Some body" "jsonUnmarshal e body = Some bidReq"
      and "req_TMax bidReq \<le> 120"
  shows "Handle e m =
           [SSPRequestCounterInc (ssp_PrometheusIdentifier ssp) (ssp_TenantIdentifier ssp)
              (ssp_SSPIdentifier ssp),
            AuctionCounterInc ''rejected_tmax'',
            SSPResponseCounterInc (ssp_PrometheusIdentifier ssp) (ssp_TenantIdentifier ssp)
              (ssp_SSPIdentifier ssp) ''error'',
            WriteHeader 204]
         \<and> httpStatus (Handle e m) = 204
         \<and> dspCalls (Handle e m) = []"
proof -
  have H: "Handle e m =
           [SSPRequestCounterInc (ssp_PrometheusIdentifier ssp) (ssp_TenantIdentifier ssp)
              (ssp_SSPIdentifier ssp),
            AuctionCounterInc ''rejected_tmax'',
            SSPResponseCounterInc (ssp_PrometheusIdentifier ssp) (ssp_TenantIdentifier ssp)
              (ssp_SSPIdentifier ssp) ''error'',
            WriteHeader 204]"
    using assms(7) Handle_after_parse[OF assms(1-6)] by simp
  show ?thesis unfolding H by (simp add: dspCalls_def)
qed

lemma mgrA_cfg: "GetConfig mgrA = Some cfgA" by (simp add: GetConfig_def mgrA_def)
lemma cfgA_serving: "AdServing cfgA" by (simp add: cfgA_def)
lemma mgrA_ssp: "GetSSPByInventoryCode mgrA ''acc-1'' = Some sspA"
  by (simp add: GetSSPByInventoryCode_def mgrA_cfg cfgA_def sspA_def)

text \<open>
  Claim C2 on the sample data, with a request whose TMax is 100.
\<close>

theorem Handle_rejects_small_TMax_witness:
  "Handle ((envA 1)\<lparr>readAll := Some ''slow''\<rparr>) mgrA =
     [SSPRequestCounterInc ''pub'' ''t7'' ''ssp-1'', AuctionCounterInc ''rejected_tmax'',
      SSPResponseCounterInc ''pub'' ''t7'' ''ssp-1'' ''error'', WriteHeader 204]"
  using Handle_rejects_small_TMax [of mgrA cfgA "(envA 1)\<lparr>readAll := Some ''slow''\<rparr>" sspA
          "''slow''" reqSlow]
  by (simp add: mgrA_cfg cfgA_serving mgrA_ssp envA_def reqSlow_def sspA_def)

section \<open>Selection and non-positive prices\<close>

lemma sample_prices:
  "allPrices [\<lparr>res_resp = respOf 1.2, res_dsp = dspA\<rparr>, \<lparr>res_resp = respOf 2.5, res_dsp = dspB\<rparr>,
              \<lparr>res_resp = respOf 2.5, res_dsp = dspA\<rparr>] = [1.2, 2.5, 2.5]"
  by (simp add: allPrices_def pricesOf_def respOf_def)

text \<open>
  The amended claim C1 on three responses priced 1.2, 2.5 and 2.5: the second one wins,
  the third, of equal price, does not replace it.
\<close>

theorem selectBest_first_max_witness:
  "(\<exists>p\<in>set (allPrices [\<lparr>res_resp = respOf 1.2, res_dsp = dspA\<rparr>,
                         \<lparr>res_resp = respOf 2.5, res_dsp = dspB\<rparr>,
                         \<lparr>res_resp = respOf 2.5, res_dsp = dspA\<rparr>]). p > 0)
   \<and> selectBest [\<lparr>res_resp = respOf 1.2, res_dsp = dspA\<rparr>,
                  \<lparr>res_resp = respOf 2.5, res_dsp = dspB\<rparr>,
                  \<lparr>res_resp = respOf 2.5, res_dsp = dspA\<rparr>]
       = (Some \<lparr>res_resp = respOf 2.5, res_dsp = dspB\<rparr>, 2.5)"
proof -
  let ?rs = "[\<lparr>res_resp = respOf 1.2, res_dsp = dspA\<rparr>, \<lparr>res_resp = respOf 2.5, res_dsp = dspB\<rparr>,
              \<lparr>res_resp = respOf 2.5, res_dsp = dspA\<rparr>]"
  have ex: "\<exists>p\<in>set (allPrices ?rs). p > 0" unfolding sample_prices by simp
  have M: "Max (set (allPrices ?rs)) = 2.5" unfolding sample_prices by simp
  have f: "find (\<lambda>r. 2.5 \<in> set (pricesOf r)) ?rs = Some \<lparr>res_resp = respOf 2.5, res_dsp = dspB\<rparr>"
    by (simp add: pricesOf_def respOf_def)
  from selectBest_first_max [OF ex] obtain best
    where "selectBest ?rs = (Some best, Max (set (allPrices ?rs)))"
      and "find (\<lambda>r. Max (set (allPrices ?rs)) \<in> set (pricesOf r)) ?rs = Some best"
    by blast
  then have "selectBest ?rs = (Some \<lparr>res_resp = respOf 2.5, res_dsp = dspB\<rparr>, 2.5)"
    unfolding M f by simp
  with ex show ?thesis by blast
qed

text \<open>
  Claim C1 as stated fails for a single response whose only bid has price 0: that bid has
  the greatest price of all received bids, yet no winner is selected.
\<close>

theorem selectBest_zero_price_counterexample:
  "pricesOf \<lparr>res_resp = respOf 0, res_dsp = dspA\<rparr> = [0]
   \<and> fst (selectBest [\<lparr>res_resp = respOf 0, res_dsp = dspA\<rparr>]) = None"
  by (simp add: selectBest_def pricesOf_def respOf_def)

text \<open>
  Claim C9. When the request passes the TMax check and every bid of every response
  received has a price of at most 0, no winner is selected in any order of arrival, the
  SSP response counter is incremented with \<open>no_bid\<close> as the last metric, and the answer
  is 204.
\<close>

theorem nonpositive_bids_give_no_winner:
  assumes "GetConfig m = Some cfg" "AdServing cfg" "accountCode e \<noteq> ''''"
      and "GetSSPByInventoryCode m (accountCode e) = Some ssp"
      and "readAll e = Some body" "jsonUnmarshal e body = Some bidReq"
      and "req_TMax bidReq > 120"
      and "sel = ShortlistDSPs (caseMaps e) bidReq (GetDSPsByTenant m (ssp_TenantID ssp)) 5"
      and "\<forall>r\<in>set (snd (fanOut e body sel)). \<forall>p\<in>set (pricesOf r). p \<le> 0"
  shows "selectBest (arrive (picks e) (snd (fanOut e body sel))) = (None, 0)
       \<and> Handle e m =
           SSPRequestCounterInc (ssp_PrometheusIdentifier ssp) (ssp_TenantIdentifier ssp)
               (ssp_SSPIdentifier ssp) #
           fst (fanOut e body sel) @
           [SSPResponseCounterInc (ssp_PrometheusIdentifier ssp) (ssp_TenantIdentifier ssp)
              (ssp_SSPIdentifier ssp) ''no_bid'', WriteHeader 204]
       \<and> httpStatus (Handle e m) = 204"
proof -
  let ?sent = "snd (fanOut e body sel)"
  have "\<forall>p\<in>set (allPrices (arrive (picks e) ?sent)). p \<le> 0"
    using assms(9) by (auto simp: allPrices_def set_arrive)
  then have none: "selectBest (arrive (picks e) ?sent) = (None, 0)"
    by (rule selectBest_nonpositive)
  have res: "resolve e ssp bidReq body (arrive (picks e) ?sent) =
          [SSPResponseCounterInc (ssp_PrometheusIdentifier ssp) (ssp_TenantIdentifier ssp)
              (ssp_SSPIdentifier ssp) ''no_bid'', WriteHeader 204]"
    by (simp add: resolve_def none)
  have H: "Handle e m =
           SSPRequestCounterInc (ssp_PrometheusIdentifier ssp) (ssp_TenantIdentifier ssp)
               (ssp_SSPIdentifier ssp) #
           fst (fanOut e body sel) @
           [SSPResponseCounterInc (ssp_PrometheusIdentifier ssp) (ssp_TenantIdentifier ssp)
              (ssp_SSPIdentifier ssp) ''no_bid'', WriteHeader 204]"
  proof (cases "sel = []")
    case True
    then show ?thesis
      using assms(7,8) Handle_after_parse[OF assms(1-6)] by (simp add: Let_def)
  next
    case False
    then show ?thesis
      using assms(7,8) Handle_after_parse[OF assms(1-6)] res by (simp add: Let_def)
  qed
  have "httpStatus (Handle e m) = 204"
    unfolding H by (simp add: httpStatus_fanOut)
  with none H show ?thesis by simp
qed

lemma shortlist_A: "ShortlistDSPs caseMapsA reqA (GetDSPsByTenant mgrA 7) 5 = [dspA]"
  by code_simp

lemma fanOut_A:
  "fanOut (envA pa) ''body'' [dspA] =
     ([DSPRequestCounterInc ''alpha'' ''t7'' ''dsp-a'', PostToDSP ''http://a.example/bid'' ''body'',
       DSPLatencyObserve ''alpha'' ''t7'' ''dsp-a'', DSPResponseCounterInc ''alpha'' ''t7'' ''dsp-a'' ''bid''],
      [\<lparr>res_resp = respOf pa, res_dsp = dspA\<rparr>])"
  by (simp add: dspTask_def callDSP_def envA_def dspA_def hasBid_def respOf_def Let_def)

text \<open>
  Claim C9 on the sample data: the DSP answers with one bid of price 0, its response is
  counted as \<open>bid\<close>, and the SSP still gets 204 and \<open>no_bid\<close>.
\<close>

theorem nonpositive_bids_give_no_winner_witness:
  "pricesOf \<lparr>res_resp = respOf 0, res_dsp = dspA\<rparr> = [0]
   \<and> Handle (envA 0) mgrA =
     [SSPRequestCounterInc ''pub'' ''t7'' ''ssp-1'',
      DSPRequestCounterInc ''alpha'' ''t7'' ''dsp-a'', PostToDSP ''http://a.example/bid'' ''body'',
      DSPLatencyObserve ''alpha'' ''t7'' ''dsp-a'', DSPResponseCounterInc ''alpha'' ''t7'' ''dsp-a'' ''bid'',
      SSPResponseCounterInc ''pub'' ''t7'' ''ssp-1'' ''no_bid'', WriteHeader 204]
   \<and> httpStatus (Handle (envA 0) mgrA) = 204"
proof -
  have pr: "pricesOf \<lparr>res_resp = respOf 0, res_dsp = dspA\<rparr> = [0]"
    by (simp add: pricesOf_def respOf_def)
  have e: "accountCode (envA 0) = ''acc-1''" "readAll (envA 0) = Some ''body''"
    "jsonUnmarshal (envA 0) ''body'' = Some reqA"
    by (simp_all add: envA_def)
  have t: "req_TMax reqA > 120" "ssp_TenantID sspA = 7" by (simp_all add: reqA_def sspA_def)
  have a3: "accountCode (envA 0) \<noteq> ''''" by (simp add: e)
  have a4: "GetSSPByInventoryCode mgrA (accountCode (envA 0)) = Some sspA"
    by (simp add: e mgrA_ssp)
  have a8: "[dspA] =
             ShortlistDSPs (caseMaps (envA 0)) reqA (GetDSPsByTenant mgrA (ssp_TenantID sspA)) 5"
    by (simp add: t shortlist_A envA_def)
  have np: "\<forall>r\<in>set (snd (fanOut (envA 0) ''body'' [dspA])). \<forall>p\<in>set (pricesOf r). p \<le> 0"
    unfolding fanOut_A by (simp add: pr)
  note W = nonpositive_bids_give_no_winner
             [OF mgrA_cfg cfgA_serving a3 a4 e(2) e(3) t(1) a8 np, unfolded fanOut_A]
  show ?thesis using W pr by (simp add: sspA_def)
qed

section \<open>Authentication, the logger and its file format\<close>







text \<open>
  Claim C7 does not hold of the code: after a \<open>Close\<close> that returned, a second
  \<open>Close\<close> panics on closing the closed channel.
\<close>

theorem Close_second_call_panics:
  "Close l = Inr l' \<Longrightarrow> Close l' = Inl CloseOfClosedChannel"
  by (auto simp: Close_def split: if_splits)

text \<open>
  The two calls on the sample logger.
\<close>

theorem Close_second_call_panics_witness:
  "Close loggerA = Inr (loggerA\<lparr>chanClosed := True, writer := map_option writer_Close (writer loggerA)\<rparr>)
   \<and> Close (loggerA\<lparr>chanClosed := True, writer := map_option writer_Close (writer loggerA)\<rparr>)
       = Inl CloseOfClosedChannel"
proof -
  have 1: "Close loggerA = Inr (loggerA\<lparr>chanClosed := True, writer := map_option writer_Close (writer loggerA)\<rparr>)"
    by (simp add: Close_def loggerA_def newBidLogger_def)
  from Close_second_call_panics [OF 1] 1 show ?thesis by simp
qed

declare varint.simps [simp del]
declare natBytes.simps [simp del]

























text \<open>
  A channel of capacity 0: nothing is accepted while the consumer is running, and the
  event is handed over once the consumer waits in its receive.
\<close>

lemma Log_capacity_zero:
  "Log 1700 eventA (loggerA\<lparr>chanCap := 0\<rparr>) = Inr (loggerA\<lparr>chanCap := 0\<rparr>, [ChannelFull ''r1''])
   \<and> start protoMarshal (loggerA\<lparr>chanCap := 0\<rparr>) = Inr (loggerA\<lparr>chanCap := 0, receiver := Idle\<rparr>, [])
   \<and> Log 1700 eventA (loggerA\<lparr>chanCap := 0, receiver := Idle\<rparr>)
       = Inr (loggerA\<lparr>chanCap := 0, receiver := Holding (stamp loggerA 1700 eventA)\<rparr>, [])"
  by (simp add: Log_def Let_def start_def pending_def stamp_def eventA_def loggerA_def
        newBidLogger_def)
end
